theory Spec2Isabelle
  imports Main "HOL-Library.Word"
begin

section \<open>Wire messages and region metadata\<close>

text \<open>
  The region syncer of \<^verbatim>\<open>server/region_syncer/server.go\<close> and the label scheduler of
  \<^verbatim>\<open>server/schedulers/label.go\<close>, embedded as HOL functions. Go's \<^verbatim>\<open>uint64\<close> is a
  64-bit word. The messages are the protobuf structs the code reads and builds; a
  pointer field that may be nil is an option, and the generated getters return the
  zero value on nil, as the getters below do.
\<close>

type_synonym uint64 = "64 word"

record RegionEpoch =
  ConfVer :: uint64
  Version :: uint64

record Peer =
  PeerId :: uint64
  StoreId :: uint64

record Region =
  RegionId :: uint64
  StartKey :: string
  EndKey :: string
  Epoch :: RegionEpoch
  Peers :: "Peer list"

record PeerStats =
  StatsPeer :: "Peer option"
  DownSeconds :: uint64

text \<open>
  Modelled from the spec: \<^verbatim>\<open>core.RegionInfo\<close> and its getters are not among the
  sources. It is the spec's snapshot of one region's metadata at the moment of a change,
  here the metadata the syncer sends (\<open>GetMeta\<close>) with the leader and the down and
  pending peers the label scheduler reads.
\<close>

record RegionInfo =
  meta :: Region
  leader :: "Peer option"
  downPeers :: "PeerStats list"
  pendingPeers :: "Peer list"

definition GetMeta :: "RegionInfo \<Rightarrow> Region" where
  "GetMeta r = meta r"

record RequestHeader =
  ClusterId :: uint64

record Member =
  MemberName :: string
  MemberId :: uint64
  PeerUrls :: "string list"
  ClientUrls :: "string list"

record SyncRegionRequest =
  ReqHeader :: "RequestHeader option"
  ReqMember :: "Member option"
  ReqStartIndex :: uint64

record ResponseHeader =
  RespClusterId :: uint64

record SyncRegionResponse =
  Header :: "ResponseHeader option"
  Regions :: "Region list"
  StartIndex :: uint64

definition GetHeader :: "SyncRegionRequest \<Rightarrow> RequestHeader option" where
  "GetHeader request = ReqHeader request"

definition GetClusterId :: "RequestHeader option \<Rightarrow> uint64" where
  "GetClusterId h = (case h of None \<Rightarrow> 0 | Some x \<Rightarrow> ClusterId x)"

definition GetMember :: "SyncRegionRequest \<Rightarrow> Member option" where
  "GetMember request = ReqMember request"

definition GetName :: "Member option \<Rightarrow> string" where
  "GetName m = (case m of None \<Rightarrow> [] | Some x \<Rightarrow> MemberName x)"

definition GetClientUrls :: "Member option \<Rightarrow> string list" where
  "GetClientUrls m = (case m of None \<Rightarrow> [] | Some x \<Rightarrow> ClientUrls x)"

definition GetStartIndex :: "SyncRegionRequest \<Rightarrow> uint64" where
  "GetStartIndex request = ReqStartIndex request"

section \<open>History buffer\<close>

text \<open>
  Modelled from the spec: the type \<^verbatim>\<open>historyBuffer\<close> and its methods
  \<^verbatim>\<open>Record\<close>, \<^verbatim>\<open>GetNextIndex\<close> and \<^verbatim>\<open>RecordsFrom\<close> are called by
  \<^verbatim>\<open>server.go\<close> but their file is not among the sources. The definitions follow
  the specification's History Buffer: a bounded log of (index, record) pairs, oldest
  first, spanning the indices from the spec's \<open>startIndex\<close> (the field \<open>firstIndex\<close>
  here, so that the name stays free for the local variables of the code) up to
  \<open>nextIndex\<close>; \<open>Record\<close>
  assigns \<open>nextIndex\<close>, appends, advances \<open>nextIndex\<close>, persists the watermark and
  evicts the oldest entry when the size exceeds the capacity; \<open>RecordsFrom idx\<close>
  returns the retained records with index at least \<open>idx\<close>, and nothing when \<open>idx\<close>
  is outside the retained span.
\<close>

record historyBuffer =
  capacity :: nat
  entries :: "(uint64 \<times> RegionInfo) list"
  firstIndex :: uint64
  nextIndex :: uint64
  persisted :: uint64

text \<open>
  Modelled from the spec: on startup the buffer has no entries and both indices are the
  persisted watermark.
\<close>

definition newHistoryBuffer :: "nat \<Rightarrow> uint64 \<Rightarrow> historyBuffer" where
  "newHistoryBuffer bufsize watermark =
     \<lparr>capacity = bufsize, entries = [], firstIndex = watermark, nextIndex = watermark,
      persisted = watermark\<rparr>"

text \<open>Modelled from the spec: \<open>nextIndex()\<close> is a pure peek.\<close>

definition GetNextIndex :: "historyBuffer \<Rightarrow> uint64" where
  "GetNextIndex h = nextIndex h"

text \<open>
  Modelled from the spec: \<open>record(r)\<close> assigns the index \<open>nextIndex\<close>, appends,
  advances \<open>nextIndex\<close> and persists it; if the size exceeds the capacity it evicts the
  oldest entry and advances the first index. It returns the index it assigned.
\<close>

definition Record :: "RegionInfo \<Rightarrow> historyBuffer \<Rightarrow> uint64 \<times> historyBuffer" where
  "Record r h =
     (let index = nextIndex h;
          es = entries h @ [(index, r)];
          h1 = h\<lparr>entries := es, nextIndex := index + 1, persisted := index + 1\<rparr>
      in if capacity h < length es
         then (index, h1\<lparr>entries := tl es, firstIndex := firstIndex h + 1\<rparr>)
         else (index, h1))"

text \<open>
  Modelled from the spec: \<open>recordsFrom(idx)\<close> returns the records with index at least
  \<open>idx\<close>, ascending, and the empty sequence when \<open>idx\<close> is below the first retained
  index or not below \<open>nextIndex\<close>.
\<close>

definition RecordsFrom :: "historyBuffer \<Rightarrow> uint64 \<Rightarrow> RegionInfo list" where
  "RecordsFrom h idx =
     (if firstIndex h \<le> idx \<and> idx < nextIndex h
      then map snd (filter (\<lambda>e. idx \<le> fst e) (entries h))
      else [])"

section \<open>The region syncer\<close>

text \<open>
  Errors are values. \<open>Status c fmt args\<close> is \<^verbatim>\<open>status.Errorf(c, fmt, args...)\<close>,
  \<open>WithStack e\<close> is \<^verbatim>\<open>errors.WithStack(e)\<close>, \<open>EOF\<close> is \<^verbatim>\<open>io.EOF\<close> and
  \<open>Transport d\<close> any other error of the transport.
\<close>

datatype codes = OK | FailedPrecondition | Unavailable

datatype error =
    EOF
  | Transport string
  | WithStack error
  | Status codes string "uint64 list"

datatype level = InfoLevel | WarnLevel | ErrorLevel

datatype arg = Str string | U64 uint64 | Len nat | Err error

text \<open>
  What the syncer does to the outside is a trace of events: each call of a stream's
  \<^verbatim>\<open>Send\<close> with the message and the error it returned, and each line written to
  the log (level, format, arguments). A stream is a handle of type \<open>'h\<close>; what a
  \<^verbatim>\<open>Send\<close> returns is decided by the transport, a function of everything that
  happened so far, the handle and the message. Each function below is one call run on
  its own: what other goroutines do to the syncer while the call runs is not modelled.
\<close>

datatype 'h event =
    Send 'h SyncRegionResponse "error option"
  | LogEntry level string "arg list"

type_synonym 'h transport = "'h event list \<Rightarrow> 'h \<Rightarrow> SyncRegionResponse \<Rightarrow> error option"

record Server =
  ClusterID :: uint64
  Name :: string

record 'h RegionSyncer =
  streams :: "string \<rightharpoonup> 'h"
  server :: Server
  history :: historyBuffer

definition maxSyncRegionBatchSize :: nat where
  "maxSyncRegionBatchSize = 100"

definition defaultHistoryBufferSize :: nat where
  "defaultHistoryBufferSize = 10000"

definition NewRegionSyncer :: "Server \<Rightarrow> uint64 \<Rightarrow> 'h RegionSyncer" where
  "NewRegionSyncer s watermark =
     \<lparr>streams = Map.empty, server = s,
      history = newHistoryBuffer defaultHistoryBufferSize watermark\<rparr>"

definition stream_Send ::
  "'h transport \<Rightarrow> 'h \<Rightarrow> SyncRegionResponse \<Rightarrow> 'h event list \<Rightarrow> error option \<times> 'h event list" where
  "stream_Send net sender regions tr =
     (let err = net tr sender regions in (err, tr @ [Send sender regions err]))"

definition bindStream :: "string \<Rightarrow> 'h \<Rightarrow> 'h RegionSyncer \<Rightarrow> 'h RegionSyncer" where
  "bindStream name stream s = s\<lparr>streams := (streams s)(name \<mapsto> stream)\<rparr>"

subsection \<open>broadcast\<close>

text \<open>
  \<^verbatim>\<open>for name, sender := range s.streams\<close> visits every entry of the map once, in an
  order the runtime picks: the order is the argument \<open>names\<close>. The first loop sends
  and collects the names whose send failed; the second deletes them.
\<close>

fun broadcast_send ::
  "'h transport \<Rightarrow> (string \<rightharpoonup> 'h) \<Rightarrow> SyncRegionResponse \<Rightarrow> string list \<Rightarrow> string list \<Rightarrow>
   'h event list \<Rightarrow> string list \<times> 'h event list" where
  "broadcast_send net table regions [] failed tr = (failed, tr)"
| "broadcast_send net table regions (name # names) failed tr =
     (case table name of
        None \<Rightarrow> broadcast_send net table regions names failed tr
      | Some sender \<Rightarrow>
          (case stream_Send net sender regions tr of
             (None, tr1) \<Rightarrow> broadcast_send net table regions names failed tr1
           | (Some err, tr1) \<Rightarrow>
               broadcast_send net table regions names (failed @ [name])
                 (tr1 @ [LogEntry ErrorLevel ''region syncer send data meet error:'' [Err err]])))"

fun broadcast_delete ::
  "string list \<Rightarrow> (string \<rightharpoonup> 'h) \<Rightarrow> 'h event list \<Rightarrow> (string \<rightharpoonup> 'h) \<times> 'h event list" where
  "broadcast_delete [] table tr = (table, tr)"
| "broadcast_delete (name # failed) table tr =
     broadcast_delete failed (table(name := None))
       (tr @ [LogEntry InfoLevel ''region syncer delete the stream of %s'' [Str name]])"

definition broadcast ::
  "'h transport \<Rightarrow> string list \<Rightarrow> SyncRegionResponse \<Rightarrow> 'h RegionSyncer \<Rightarrow> 'h event list \<Rightarrow>
   'h RegionSyncer \<times> 'h event list" where
  "broadcast net names regions s tr =
     (case broadcast_send net (streams s) regions names [] tr of
        (failed, tr1) \<Rightarrow>
          if 0 < length failed
          then (case broadcast_delete failed (streams s) tr1 of
                  (table, tr2) \<Rightarrow> (s\<lparr>streams := table\<rparr>, tr2))
          else (s, tr1))"

text \<open>Reading a trace: the sends attempted, and the names the deletion loop logged.\<close>

fun sends :: "'h event list \<Rightarrow> ('h \<times> SyncRegionResponse \<times> error option) list" where
  "sends [] = []"
| "sends (Send h m r # tr) = (h, m, r) # sends tr"
| "sends (LogEntry l f as # tr) = sends tr"

fun deleted :: "'h event list \<Rightarrow> string list" where
  "deleted [] = []"
| "deleted (LogEntry InfoLevel f [Str name] # tr) =
     (if f = ''region syncer delete the stream of %s'' then name # deleted tr else deleted tr)"
| "deleted (e # tr) = deleted tr"

definition failed_of ::
  "string list \<Rightarrow> ('h \<times> SyncRegionResponse \<times> error option) list \<Rightarrow> string list" where
  "failed_of names atts = map fst (filter (\<lambda>p. snd (snd (snd p)) \<noteq> None) (zip names atts))"

subsection \<open>Sync and syncHistoryRegion\<close>

definition syncHistoryRegion ::
  "'h transport \<Rightarrow> SyncRegionRequest \<Rightarrow> 'h \<Rightarrow> 'h RegionSyncer \<Rightarrow> 'h event list \<Rightarrow>
   error option \<times> 'h event list" where
  "syncHistoryRegion net request stream s tr =
     (let startIndex = GetStartIndex request;
          name = GetName (GetMember request);
          records = RecordsFrom (history s) startIndex
      in if length records = 0
         then (if GetNextIndex (history s) = startIndex
               then (None, tr @ [LogEntry InfoLevel
                       ''%s already in sync with %s, the last index is %d''
                       [Str name, Str (Name (server s)), U64 startIndex]])
               else (None, tr @ [LogEntry WarnLevel
                       ''no history regions from index %d, the leader maybe restarted''
                       [U64 startIndex]]))
         else (let tr1 = tr @ [LogEntry InfoLevel
                       ''sync the history regions with %s from index: %d, own last index: %d, got records length: %d''
                       [Str name, U64 startIndex, U64 (GetNextIndex (history s)),
                        Len (length records)]];
                   regions = map GetMeta records;
                   resp = \<lparr>Header = Some \<lparr>RespClusterId = ClusterID (server s)\<rparr>,
                           Regions = regions, StartIndex = startIndex\<rparr>
               in stream_Send net stream resp tr1))"

text \<open>
  A session reads its requests with \<^verbatim>\<open>stream.Recv()\<close>: the list holds what the
  successive calls return, an error (\<open>Inl\<close>) or a request (\<open>Inr\<close>). When the list is
  used up the session is blocked in \<^verbatim>\<open>Recv\<close> and has not returned: the exit is
  \<open>None\<close>. \<open>Return err\<close> is the value \<^verbatim>\<open>Sync\<close> returns (\<open>None\<close> is nil);
  \<open>Panic\<close> is Go's run-time panic, here the index out of range of
  \<^verbatim>\<open>GetClientUrls()[0]\<close> on an empty slice. The arguments of \<^verbatim>\<open>log.Infof\<close> are
  evaluated before the call, so the panic comes before the line is logged.
\<close>

datatype exit = Return "error option" | Panic string

text \<open>
  Lines 139 to 143, the end of one iteration of the loop of \<^verbatim>\<open>Sync\<close>: replay the
  history, return the error if that failed, and bind the stream otherwise.
\<close>

definition Sync_replay ::
  "'h transport \<Rightarrow> SyncRegionRequest \<Rightarrow> 'h \<Rightarrow> 'h RegionSyncer \<Rightarrow> 'h event list \<Rightarrow>
   error option \<times> 'h RegionSyncer \<times> 'h event list" where
  "Sync_replay net request stream s tr =
     (case syncHistoryRegion net request stream s tr of
        (Some err, tr2) \<Rightarrow> (Some err, s, tr2)
      | (None, tr2) \<Rightarrow> (None, bindStream (GetName (GetMember request)) stream s, tr2))"

fun Sync ::
  "'h transport \<Rightarrow> 'h \<Rightarrow> (error + SyncRegionRequest) list \<Rightarrow> 'h RegionSyncer \<Rightarrow> 'h event list \<Rightarrow>
   exit option \<times> 'h RegionSyncer \<times> 'h event list" where
  "Sync net stream [] s tr = (None, s, tr)"
| "Sync net stream (Inl err # rest) s tr =
     (if err = EOF then (Some (Return None), s, tr)
      else (Some (Return (Some (WithStack err))), s, tr))"
| "Sync net stream (Inr request # rest) s tr =
     (let clusterID = GetClusterId (GetHeader request) in
      if clusterID \<noteq> ClusterID (server s)
      then (Some (Return (Some (Status FailedPrecondition
                    ''mismatch cluster id, need %d but got %d''
                    [ClusterID (server s), clusterID]))), s, tr)
      else (case GetClientUrls (GetMember request) of
              [] \<Rightarrow> (Some (Panic ''index out of range''), s, tr)
            | url # urls \<Rightarrow>
                (let tr1 = tr @ [LogEntry InfoLevel ''establish sync region stream with %s [%s]''
                                  [Str (GetName (GetMember request)), Str url]]
                 in case Sync_replay net request stream s tr1 of
                      (Some err, s2, tr2) \<Rightarrow> (Some (Return (Some err)), s2, tr2)
                    | (None, s2, tr2) \<Rightarrow> Sync net stream rest s2 tr2)))"

subsection \<open>RunServer\<close>

text \<open>
  The channel \<^verbatim>\<open>regionNotifier\<close> is the list of the notifications queued in it,
  oldest first. \<open>drain\<close> is the loop of lines 100 to 104: \<open>pending\<close> is the length
  of the channel when the loop starts, so every receive of the loop finds an element.
\<close>

fun drain ::
  "nat \<Rightarrow> nat \<Rightarrow> RegionInfo list \<Rightarrow> Region list \<Rightarrow> historyBuffer \<Rightarrow>
   RegionInfo list \<times> Region list \<times> historyBuffer" where
  "drain i pending [] requests h = ([], requests, h)"
| "drain i pending (region # chan) requests h =
     (if i < pending \<and> i < maxSyncRegionBatchSize
      then drain (i + 1) pending chan (requests @ [GetMeta region]) (snd (Record region h))
      else (region # chan, requests, h))"

text \<open>
  Lines 96 to 109, the notifier case up to the message it builds: the message, what is
  left in the channel, and the syncer with the batch recorded.
\<close>

definition RunServer_batch ::
  "RegionInfo \<Rightarrow> RegionInfo list \<Rightarrow> Region list \<Rightarrow> 'h RegionSyncer \<Rightarrow>
   SyncRegionResponse \<times> RegionInfo list \<times> 'h RegionSyncer" where
  "RunServer_batch first chan requests s =
     (let requests1 = requests @ [GetMeta first];
          startIndex = GetNextIndex (history s);
          h1 = snd (Record first (history s));
          pending = length chan
      in case drain 0 pending chan requests1 h1 of
           (chan2, requests2, h2) \<Rightarrow>
             (\<lparr>Header = Some \<lparr>RespClusterId = ClusterID (server s)\<rparr>,
               Regions = requests2, StartIndex = startIndex\<rparr>,
              chan2, s\<lparr>history := h2\<rparr>))"

text \<open>Lines 112 to 115: the message of the ticker case.\<close>

definition RunServer_alive :: "'h RegionSyncer \<Rightarrow> SyncRegionResponse" where
  "RunServer_alive s =
     \<lparr>Header = Some \<lparr>RespClusterId = ClusterID (server s)\<rparr>, Regions = [],
      StartIndex = GetNextIndex (history s)\<rparr>"

text \<open>
  One element of the schedule is what happens next around the loop: the \<^verbatim>\<open>select\<close>
  takes the quit case, the notifier case (possible only when the channel holds a
  notification) or the ticker case, each with the order in which the broadcast will
  range over the streams; or a producer queues one more notification. The result says
  whether the loop has returned, and gives the channel, the syncer and the trace.
  \<open>requests\<close> is the slice the loop keeps between iterations and truncates at line 118.
\<close>

datatype select = Quit | Notified "string list" | Tick "string list" | Produce RegionInfo

fun RunServer_loop ::
  "'h transport \<Rightarrow> select list \<Rightarrow> Region list \<Rightarrow> RegionInfo list \<Rightarrow> 'h RegionSyncer \<Rightarrow>
   'h event list \<Rightarrow> bool \<times> RegionInfo list \<times> 'h RegionSyncer \<times> 'h event list" where
  "RunServer_loop net [] requests chan s tr = (False, chan, s, tr)"
| "RunServer_loop net (Quit # sched) requests chan s tr =
     (True, chan, s, tr @ [LogEntry InfoLevel ''exit region syncer'' []])"
| "RunServer_loop net (Produce r # sched) requests chan s tr =
     RunServer_loop net sched requests (chan @ [r]) s tr"
| "RunServer_loop net (Notified names # sched) requests chan s tr =
     (case chan of
        [] \<Rightarrow> RunServer_loop net sched requests chan s tr
      | first # chan1 \<Rightarrow>
          (case RunServer_batch first chan1 requests s of
             (regions, chan2, s1) \<Rightarrow>
               (case broadcast net names regions s1 tr of
                  (s2, tr2) \<Rightarrow> RunServer_loop net sched [] chan2 s2 tr2)))"
| "RunServer_loop net (Tick names # sched) requests chan s tr =
     (case broadcast net names (RunServer_alive s) s tr of
        (s1, tr1) \<Rightarrow> RunServer_loop net sched [] chan s1 tr1)"

definition RunServer ::
  "'h transport \<Rightarrow> select list \<Rightarrow> RegionInfo list \<Rightarrow> 'h RegionSyncer \<Rightarrow> 'h event list \<Rightarrow>
   bool \<times> RegionInfo list \<times> 'h RegionSyncer \<times> 'h event list" where
  "RunServer net sched chan s tr = RunServer_loop net sched [] chan s tr"

text \<open>The history buffer after recording a list of regions in order.\<close>

definition Record_all :: "RegionInfo list \<Rightarrow> historyBuffer \<Rightarrow> historyBuffer" where
  "Record_all rs h = foldl (\<lambda>h r. snd (Record r h)) h rs"

section \<open>The label scheduler\<close>

text \<open>
  \<^verbatim>\<open>Schedule\<close> reads the cluster through the interface \<^verbatim>\<open>schedule.Cluster\<close> and
  picks a target with \<^verbatim>\<open>BalanceSelector.SelectTarget\<close>; both live in packages that
  are not among the sources, so the cluster is a record of the methods the code calls
  and \<open>SelectTarget\<close> is an argument. \<^verbatim>\<open>RandLeaderRegion\<close> is asked at most once
  for each store id, so any random choice it makes is a function of the id. The
  constructors of the schedule package are not among the sources either: what
  \<^verbatim>\<open>NewOperator\<close>, \<^verbatim>\<open>NewExcludedFilter\<close> and \<^verbatim>\<open>NewBalanceSelector\<close> build is the
  call itself, the constructor with its arguments. The counters the code increments are
  returned as the list of their labels; its debug log lines are left out.
\<close>

record StoreLabel =
  LabelKey :: string
  LabelValue :: string

text \<open>
  Modelled from the spec: \<^verbatim>\<open>core.StoreInfo\<close> is not among the sources; a store is a
  storage node, here with the id and the labels the scheduler reads.
\<close>

record StoreInfo =
  StoreInfoId :: uint64
  Labels :: "StoreLabel list"

definition GetId :: "StoreInfo \<Rightarrow> uint64" where
  "GetId st = StoreInfoId st"

definition GetID :: "RegionInfo \<Rightarrow> uint64" where
  "GetID r = RegionId (meta r)"

definition GetRegionEpoch :: "RegionInfo \<Rightarrow> RegionEpoch" where
  "GetRegionEpoch r = Epoch (meta r)"

definition GetDownPeers :: "RegionInfo \<Rightarrow> PeerStats list" where
  "GetDownPeers r = downPeers r"

definition GetPendingPeers :: "RegionInfo \<Rightarrow> Peer list" where
  "GetPendingPeers r = pendingPeers r"

definition GetPeer :: "PeerStats \<Rightarrow> Peer option" where
  "GetPeer p = StatsPeer p"

definition GetStoreId :: "Peer option \<Rightarrow> uint64" where
  "GetStoreId p = (case p of None \<Rightarrow> 0 | Some x \<Rightarrow> StoreId x)"

record Cluster =
  GetStores :: "StoreInfo list"
  CheckLabelProperty :: "string \<Rightarrow> StoreLabel list \<Rightarrow> bool"
  RandLeaderRegion :: "uint64 \<Rightarrow> RegionInfo option"
  GetFollowerStores :: "RegionInfo \<Rightarrow> StoreInfo list"

definition RejectLeader :: string where
  "RejectLeader = ''reject-leader''"

datatype ResourceKind = LeaderKind | RegionKind

datatype Filter =
    StoreStateFilter bool
  | NewExcludedFilter "uint64 set" "uint64 set"

datatype BalanceSelector = NewBalanceSelector ResourceKind "Filter list"

type_synonym SelectTarget =
  "BalanceSelector \<Rightarrow> Cluster \<Rightarrow> StoreInfo list \<Rightarrow> Filter list \<Rightarrow> StoreInfo option"

datatype OperatorKind = OpLeader | OpRegion | OpAdmin

datatype OperatorStep = TransferLeader (FromStore: uint64) (ToStore: uint64)

datatype Operator = NewOperator string uint64 RegionEpoch OperatorKind "OperatorStep list"

record labelScheduler =
  selector :: BalanceSelector

definition newLabelScheduler :: labelScheduler where
  "newLabelScheduler = \<lparr>selector = NewBalanceSelector LeaderKind [StoreStateFilter True]\<rparr>"

text \<open>The first loop of \<^verbatim>\<open>Schedule\<close>: the ids of the stores that reject leaders.\<close>

definition rejectLeaderStores :: "Cluster \<Rightarrow> uint64 set" where
  "rejectLeaderStores cluster =
     foldl (\<lambda>m st. if CheckLabelProperty cluster RejectLeader (Labels st)
                    then insert (GetId st) m else m)
       {} (GetStores cluster)"

definition excludeStores :: "RegionInfo \<Rightarrow> uint64 set" where
  "excludeStores region =
     foldl (\<lambda>m p. insert (GetStoreId (Some p)) m)
       (foldl (\<lambda>m p. insert (GetStoreId (GetPeer p)) m) {} (GetDownPeers region))
       (GetPendingPeers region)"

text \<open>
  The second loop, \<^verbatim>\<open>for id := range rejectLeaderStores\<close>, over the ids in the order
  the runtime picks.
\<close>

fun Schedule_range ::
  "SelectTarget \<Rightarrow> labelScheduler \<Rightarrow> Cluster \<Rightarrow> uint64 list \<Rightarrow> string list \<Rightarrow>
   Operator list \<times> string list" where
  "Schedule_range sel s cluster [] counters = ([], counters @ [''no_region''])"
| "Schedule_range sel s cluster (id' # ids) counters =
     (case RandLeaderRegion cluster id' of
        None \<Rightarrow> Schedule_range sel s cluster ids counters
      | Some region \<Rightarrow>
          (let fl = NewExcludedFilter {} (excludeStores region);
               target = sel (selector s) cluster (GetFollowerStores cluster region) [fl]
           in case target of
                None \<Rightarrow> Schedule_range sel s cluster ids (counters @ [''no_target''])
              | Some tg \<Rightarrow>
                  (let step = TransferLeader id' (GetId tg);
                       op = NewOperator ''label-reject-leader'' (GetID region)
                              (GetRegionEpoch region) OpLeader [step]
                   in ([op], counters @ [''new_operator'']))))"

definition Schedule ::
  "SelectTarget \<Rightarrow> labelScheduler \<Rightarrow> Cluster \<Rightarrow> uint64 list \<Rightarrow> Operator list \<times> string list" where
  "Schedule sel s cluster ids =
     (if rejectLeaderStores cluster = {} then ([], [''schedule'', ''skip''])
      else Schedule_range sel s cluster ids [''schedule''])"

section \<open>Concrete inputs\<close>

text \<open>Small values on which the theorems below are instantiated and evaluated.\<close>

definition pd1 :: Server where
  "pd1 = \<lparr>ClusterID = 7, Name = ''pd1''\<rparr>"

definition region_n :: "nat \<Rightarrow> RegionInfo" where
  "region_n n =
     \<lparr>meta = \<lparr>RegionId = of_nat n, StartKey = [], EndKey = [],
              Epoch = \<lparr>ConfVer = 1, Version = 1\<rparr>, Peers = []\<rparr>,
      leader = None, downPeers = [], pendingPeers = []\<rparr>"

definition follower_request :: "string \<Rightarrow> string list \<Rightarrow> uint64 \<Rightarrow> uint64 \<Rightarrow> SyncRegionRequest" where
  "follower_request name urls cluster idx =
     \<lparr>ReqHeader = Some \<lparr>ClusterId = cluster\<rparr>,
      ReqMember = Some \<lparr>MemberName = name, MemberId = 1, PeerUrls = [], ClientUrls = urls\<rparr>,
      ReqStartIndex = idx\<rparr>"

definition flaky :: "nat transport" where
  "flaky tr h m = (if h = 1 then Some (Transport ''broken pipe'') else None)"

definition reliable :: "nat transport" where
  "reliable tr h m = None"

definition no_followers :: "nat RegionSyncer" where
  "no_followers = NewRegionSyncer pd1 0"

definition two_followers :: "nat RegionSyncer" where
  "two_followers = (NewRegionSyncer pd1 0)\<lparr>streams := [''a'' \<mapsto> 1, ''b'' \<mapsto> 2]\<rparr>"

definition one_follower :: "nat RegionSyncer" where
  "one_follower = (NewRegionSyncer pd1 0)\<lparr>streams := [''b'' \<mapsto> 2]\<rparr>"

definition restarted :: "nat RegionSyncer" where
  "restarted = NewRegionSyncer pd1 5"

definition with_history :: "nat RegionSyncer" where
  "with_history =
     (NewRegionSyncer pd1 0)\<lparr>history :=
        Record_all [region_n 1, region_n 2, region_n 3] (newHistoryBuffer 10000 0)\<rparr>"

definition session_a :: "(error + SyncRegionRequest) list" where
  "session_a = [Inr (follower_request ''a'' [''http://a:2379''] 7 0)]"

definition log_a :: "nat event list" where
  "log_a =
     [LogEntry InfoLevel ''establish sync region stream with %s [%s]''
        [Str ''a'', Str ''http://a:2379''],
      LogEntry InfoLevel ''%s already in sync with %s, the last index is %d''
        [Str ''a'', Str ''pd1'', U64 0]]"

definition burst :: "RegionInfo list" where
  "burst = map region_n [0..<150]"

definition store_n :: "nat \<Rightarrow> StoreLabel list \<Rightarrow> StoreInfo" where
  "store_n n ls = \<lparr>StoreInfoId = of_nat n, Labels = ls\<rparr>"

definition labelled_cluster :: Cluster where
  "labelled_cluster =
     \<lparr>GetStores = [store_n 1 [\<lparr>LabelKey = ''zone'', LabelValue = ''z1''\<rparr>], store_n 2 []],
      CheckLabelProperty = (\<lambda>typ ls. typ = ''reject-leader'' \<and> ls \<noteq> []),
      RandLeaderRegion = (\<lambda>i. if i = 1 then Some (region_n 9) else None),
      GetFollowerStores = (\<lambda>r. [store_n 2 []])\<rparr>"

definition plain_cluster :: Cluster where
  "plain_cluster =
     \<lparr>GetStores = [store_n 2 []],
      CheckLabelProperty = (\<lambda>typ ls. typ = ''reject-leader'' \<and> ls \<noteq> []),
      RandLeaderRegion = (\<lambda>i. None),
      GetFollowerStores = (\<lambda>r. [])\<rparr>"

definition first_store :: SelectTarget where
  "first_store sl cluster stores fs = (case stores of [] \<Rightarrow> None | st # sts \<Rightarrow> Some st)"

section \<open>Properties of broadcast\<close>

lemma sends_append: "sends (xs @ ys) = sends xs @ sends ys"
  by (induction xs rule: sends.induct) simp_all

lemma deleted_append: "deleted (xs @ ys) = deleted xs @ deleted ys"
  by (induction xs rule: deleted.induct) simp_all

lemma failed_of_Cons:
  "failed_of (n # names) ((h, m, r) # atts) =
     (if r = None then failed_of names atts else n # failed_of names atts)"
  by (simp add: failed_of_def)

lemma failed_of_Nil: "failed_of [] atts = []"
  by (simp add: failed_of_def)

text \<open>
  The sending loop, from any accumulator and trace: it appends one send for each name
  in order, all with the same message, logs no deletion, and adds to \<open>failed\<close> the
  names whose send returned an error.
\<close>

lemma broadcast_send_trace:
  "set names \<subseteq> dom table \<Longrightarrow>
   \<exists>new. broadcast_send net table regions names failed tr =
            (failed @ failed_of names (sends new), tr @ new) \<and>
         map (\<lambda>a. (fst a, fst (snd a))) (sends new) = map (\<lambda>n. (the (table n), regions)) names \<and>
         deleted new = []"
proof (induction names arbitrary: failed tr)
  case Nil
  show ?case by (rule exI [of _ "[]"]) (simp add: failed_of_Nil)
next
  case (Cons name names)
  from Cons.prems obtain sender where sender: "table name = Some sender" by auto
  from Cons.prems have sub: "set names \<subseteq> dom table" by simp
  let ?err = "net tr sender regions"
  show ?case
  proof (cases ?err)
    case None
    from Cons.IH [OF sub, of failed "tr @ [Send sender regions None]"]
    obtain new where new:
      "broadcast_send net table regions names failed (tr @ [Send sender regions None]) =
         (failed @ failed_of names (sends new), (tr @ [Send sender regions None]) @ new)"
      "map (\<lambda>a. (fst a, fst (snd a))) (sends new) = map (\<lambda>n. (the (table n), regions)) names"
      "deleted new = []" by blast
    show ?thesis
      using new by (intro exI [of _ "Send sender regions None # new"])
        (simp add: sender None stream_Send_def Let_def failed_of_Cons)
  next
    case (Some err)
    let ?l = "LogEntry ErrorLevel ''region syncer send data meet error:'' [Err err]"
    from Cons.IH [OF sub, of "failed @ [name]" "(tr @ [Send sender regions (Some err)]) @ [?l]"]
    obtain new where new:
      "broadcast_send net table regions names (failed @ [name])
         ((tr @ [Send sender regions (Some err)]) @ [?l]) =
         ((failed @ [name]) @ failed_of names (sends new),
          ((tr @ [Send sender regions (Some err)]) @ [?l]) @ new)"
      "map (\<lambda>a. (fst a, fst (snd a))) (sends new) = map (\<lambda>n. (the (table n), regions)) names"
      "deleted new = []" by blast
    show ?thesis
      using new by (intro exI [of _ "Send sender regions (Some err) # ?l # new"])
        (simp add: sender Some stream_Send_def Let_def failed_of_Cons)
  qed
qed

lemma broadcast_delete_eq:
  "broadcast_delete failed table tr =
     (\<lambda>n. if n \<in> set failed then None else table n,
      tr @ map (\<lambda>n. LogEntry InfoLevel ''region syncer delete the stream of %s'' [Str n]) failed)"
proof (induction failed arbitrary: table tr)
  case Nil
  show ?case by simp
next
  case (Cons name failed)
  show ?case by (auto simp: Cons.IH)
qed

lemma deleted_map:
  "deleted (map (\<lambda>n. LogEntry InfoLevel ''region syncer delete the stream of %s'' [Str n]) ns) = ns"
  by (induction ns) simp_all

lemma sends_map_log: "sends (map (\<lambda>n. LogEntry l f (g n)) ns) = []"
  by (induction ns) simp_all

lemma broadcast_effect:
  assumes "set names = dom (streams s)"
  shows "\<exists>new. snd (broadcast net names regions s tr) = tr @ new \<and>
           map (\<lambda>a. (fst a, fst (snd a))) (sends new) =
             map (\<lambda>n. (the (streams s n), regions)) names \<and>
           fst (broadcast net names regions s tr) =
             s\<lparr>streams := (\<lambda>n. if n \<in> set (failed_of names (sends new)) then None
                                else streams s n)\<rparr> \<and>
           deleted new = failed_of names (sends new)"
proof -
  from assms have "set names \<subseteq> dom (streams s)" by simp
  from broadcast_send_trace [OF this, of net regions "[]" tr]
  obtain new where new:
    "broadcast_send net (streams s) regions names [] tr =
       (failed_of names (sends new), tr @ new)"
    "map (\<lambda>a. (fst a, fst (snd a))) (sends new) = map (\<lambda>n. (the (streams s n), regions)) names"
    "deleted new = []" by auto
  let ?failed = "failed_of names (sends new)"
  let ?logs = "map (\<lambda>n. LogEntry InfoLevel ''region syncer delete the stream of %s'' [Str n]) ?failed"
  show ?thesis
  proof (cases "?failed = []")
    case True
    have "s\<lparr>streams := (\<lambda>n. streams s n)\<rparr> = s" by simp
    then show ?thesis
      by (intro exI [of _ new]) (simp add: broadcast_def new True)
  next
    case False
    show ?thesis
      by (intro exI [of _ "new @ ?logs"])
        (simp add: broadcast_def new False broadcast_delete_eq sends_append deleted_append
          deleted_map sends_map_log)
  qed
qed

text \<open>
  C2: one call of \<open>broadcast\<close>, ranging over the table in any order \<open>names\<close> (every
  registered name once). The events \<open>new\<close> the call appends to the trace hold exactly
  one send for each entry, in that order and each with the message, so every entry is
  tried and none twice. The names whose send returned an error are
  \<open>failed_of names (sends new)\<close>: the table afterwards is the old table without
  exactly these names, every other entry and the rest of the syncer unchanged, and the
  deletions logged by name are exactly these names.
\<close>

theorem broadcast_removes_failed_streams:
  assumes "distinct names" and "set names = dom (streams s)"
  shows "\<exists>new. snd (broadcast net names regions s tr) = tr @ new \<and>
           map (\<lambda>a. (fst a, fst (snd a))) (sends new) =
             map (\<lambda>n. (the (streams s n), regions)) names \<and>
           fst (broadcast net names regions s tr) =
             s\<lparr>streams := (\<lambda>n. if n \<in> set (failed_of names (sends new)) then None
                                else streams s n)\<rparr> \<and>
           deleted new = failed_of names (sends new)"
  using assms(2) by (rule broadcast_effect)

theorem broadcast_removes_failed_streams_witness:
  "distinct [''a'', ''b''] \<and> set [''a'', ''b''] = dom (streams two_followers) \<and>
   (\<exists>new. snd (broadcast flaky [''a'', ''b''] (RunServer_alive two_followers) two_followers []) =
            [] @ new \<and>
      map (\<lambda>a. (fst a, fst (snd a))) (sends new) =
        map (\<lambda>n. (the (streams two_followers n), RunServer_alive two_followers)) [''a'', ''b''] \<and>
      fst (broadcast flaky [''a'', ''b''] (RunServer_alive two_followers) two_followers []) =
        two_followers\<lparr>streams :=
          (\<lambda>n. if n \<in> set (failed_of [''a'', ''b''] (sends new)) then None
               else streams two_followers n)\<rparr> \<and>
      deleted new = failed_of [''a'', ''b''] (sends new)) \<and>
   streams (fst (broadcast flaky [''a'', ''b''] (RunServer_alive two_followers) two_followers []))
     = [''b'' \<mapsto> 2] \<and>
   deleted (snd (broadcast flaky [''a'', ''b''] (RunServer_alive two_followers) two_followers []))
     = [''a'']"
proof -
  have d: "distinct [''a'', ''b'']" by simp
  have s: "set [''a'', ''b''] = dom (streams two_followers)"
    by (auto simp: two_followers_def)
  have e: "streams (fst (broadcast flaky [''a'', ''b''] (RunServer_alive two_followers)
             two_followers [])) = [''b'' \<mapsto> 2]"
    by (rule ext)
      (simp add: broadcast_def two_followers_def flaky_def stream_Send_def Let_def)
  have l: "deleted (snd (broadcast flaky [''a'', ''b''] (RunServer_alive two_followers)
             two_followers [])) = [''a'']"
    by (simp add: broadcast_def two_followers_def flaky_def stream_Send_def Let_def)
  from broadcast_removes_failed_streams [OF d s, of flaky "RunServer_alive two_followers" "[]"]
    d s e l
  show ?thesis by blast
qed

section \<open>Properties of Sync\<close>

text \<open>
  A session that has read \<open>pre\<close> and is blocked in \<^verbatim>\<open>Recv\<close> goes on with whatever
  comes next from the state it has reached: the loop carries nothing else over.
\<close>

lemma Sync_append:
  "Sync net stream pre s tr = (None, s1, tr1) \<Longrightarrow>
   Sync net stream (pre @ rest) s tr = Sync net stream rest s1 tr1"
proof (induction pre arbitrary: s tr)
  case Nil
  then show ?case by simp
next
  case (Cons a pre)
  show ?case
  proof (cases a)
    case (Inl err)
    with Cons.prems show ?thesis by (simp split: if_splits)
  next
    case (Inr request)
    with Cons.prems Cons.IH show ?thesis
      by (auto simp: Let_def split: if_splits list.splits prod.splits option.splits)
  qed
qed

lemma session_a_waits:
  "Sync reliable 1 session_a no_followers [] = (None, bindStream ''a'' 1 no_followers, log_a)"
  by (simp add: session_a_def log_a_def follower_request_def no_followers_def
      NewRegionSyncer_def newHistoryBuffer_def pd1_def GetClusterId_def GetHeader_def
      GetClientUrls_def GetMember_def GetName_def Sync_replay_def syncHistoryRegion_def
      GetStartIndex_def RecordsFrom_def GetNextIndex_def Let_def)

text \<open>
  C3: a session that awaits its next request (it has read \<open>pre\<close> and reached the
  syncer \<open>s1\<close> and the trace \<open>tr1\<close>) and then receives a request whose cluster
  identifier is not the server's returns the FailedPrecondition status error. The
  syncer and the trace it returns are \<open>s1\<close> and \<open>tr1\<close>: nothing was sent for this
  request and no stream was bound. The request's StartIndex and what follows on the
  stream (\<open>rest\<close>) are arbitrary.
\<close>

theorem Sync_mismatch_cluster_id:
  assumes "Sync net stream pre s tr = (None, s1, tr1)"
    and "GetClusterId (GetHeader request) \<noteq> ClusterID (server s1)"
  shows "Sync net stream (pre @ Inr request # rest) s tr =
           (Some (Return (Some (Status FailedPrecondition
              ''mismatch cluster id, need %d but got %d''
              [ClusterID (server s1), GetClusterId (GetHeader request)]))), s1, tr1)"
  using assms by (simp add: Sync_append)

theorem Sync_mismatch_cluster_id_witness:
  "Sync reliable 1 session_a no_followers [] = (None, bindStream ''a'' 1 no_followers, log_a) \<and>
   GetClusterId (GetHeader (follower_request ''a'' [''http://a:2379''] 8 0)) \<noteq>
     ClusterID (server (bindStream ''a'' 1 no_followers)) \<and>
   Sync reliable 1 (session_a @ Inr (follower_request ''a'' [''http://a:2379''] 8 0) # [])
       no_followers [] =
     (Some (Return (Some (Status FailedPrecondition ''mismatch cluster id, need %d but got %d''
        [7, 8]))), bindStream ''a'' 1 no_followers, log_a)"
proof -
  have m: "GetClusterId (GetHeader (follower_request ''a'' [''http://a:2379''] 8 0)) \<noteq>
     ClusterID (server (bindStream ''a'' 1 no_followers))"
    by (simp add: GetClusterId_def GetHeader_def follower_request_def bindStream_def
        no_followers_def NewRegionSyncer_def pd1_def)
  have v: "GetClusterId (GetHeader (follower_request ''a'' [''http://a:2379''] 8 0)) = 8"
    "ClusterID (server (bindStream ''a'' 1 no_followers)) = 7"
    by (simp_all add: GetClusterId_def GetHeader_def follower_request_def bindStream_def
        no_followers_def NewRegionSyncer_def pd1_def)
  from Sync_mismatch_cluster_id [OF session_a_waits m, of "[]"] session_a_waits m
  show ?thesis by (simp only: v) simp
qed

text \<open>
  C8: a session that awaits its next request and gets an error from \<^verbatim>\<open>Recv\<close>
  returns: nil when the error is the end of input, and otherwise an error (the one
  received, with a stack). Syncer and trace stay as they were.
\<close>

theorem Sync_recv_error:
  assumes "Sync net stream pre s tr = (None, s1, tr1)"
  shows "Sync net stream (pre @ Inl err # rest) s tr =
           (Some (Return (if err = EOF then None else Some (WithStack err))), s1, tr1)"
  using assms by (simp add: Sync_append)

theorem Sync_recv_error_witness:
  "Sync reliable 1 session_a no_followers [] = (None, bindStream ''a'' 1 no_followers, log_a) \<and>
   Sync reliable 1 (session_a @ Inl EOF # []) no_followers [] =
     (Some (Return None), bindStream ''a'' 1 no_followers, log_a) \<and>
   Sync reliable 1 (session_a @ Inl (Transport ''connection reset'') # []) no_followers [] =
     (Some (Return (Some (WithStack (Transport ''connection reset'')))),
      bindStream ''a'' 1 no_followers, log_a)"
  using Sync_recv_error [OF session_a_waits, of EOF "[]"]
    Sync_recv_error [OF session_a_waits, of "Transport ''connection reset''" "[]"]
    session_a_waits
  by simp

text \<open>
  C9: a session that awaits its next request and receives one with the server's
  cluster identifier indexes the member's client URLs at 0 with no check. Handling that
  one request panics exactly when the list is empty; in that case the session ends in
  the panic whatever follows, before anything is logged, sent or bound.
\<close>

theorem Sync_client_urls_unchecked:
  assumes "Sync net stream pre s tr = (None, s1, tr1)"
    and "GetClusterId (GetHeader request) = ClusterID (server s1)"
  shows "((\<exists>p. fst (Sync net stream (pre @ [Inr request]) s tr) = Some (Panic p)) \<longleftrightarrow>
            GetClientUrls (GetMember request) = []) \<and>
         (GetClientUrls (GetMember request) = [] \<longrightarrow>
            Sync net stream (pre @ Inr request # rest) s tr =
              (Some (Panic ''index out of range''), s1, tr1))"
  using assms
  by (auto simp: Sync_append Let_def split: list.splits prod.splits option.splits)

theorem Sync_client_urls_unchecked_witness:
  "Sync reliable 1 session_a no_followers [] = (None, bindStream ''a'' 1 no_followers, log_a) \<and>
   GetClusterId (GetHeader (follower_request ''a'' [] 7 0)) =
     ClusterID (server (bindStream ''a'' 1 no_followers)) \<and>
   GetClientUrls (GetMember (follower_request ''a'' [] 7 0)) = [] \<and>
   Sync reliable 1 (session_a @ Inr (follower_request ''a'' [] 7 0) # []) no_followers [] =
     (Some (Panic ''index out of range''), bindStream ''a'' 1 no_followers, log_a)"
proof -
  have m: "GetClusterId (GetHeader (follower_request ''a'' [] 7 0)) =
     ClusterID (server (bindStream ''a'' 1 no_followers))"
    by (simp add: GetClusterId_def GetHeader_def follower_request_def bindStream_def
        no_followers_def NewRegionSyncer_def pd1_def)
  have u: "GetClientUrls (GetMember (follower_request ''a'' [] 7 0)) = []"
    by (simp add: GetClientUrls_def GetMember_def follower_request_def)
  from Sync_client_urls_unchecked [OF session_a_waits m, of "[]"] u session_a_waits m
  show ?thesis by blast
qed

text \<open>
  A session that awaits its next request and receives one with the server's cluster
  identifier and a client URL logs the line of line 137 and runs the replay step; it
  returns the error of the step or goes on with the stream bound.
\<close>

lemma Sync_reaches_replay:
  assumes "Sync net stream pre s tr = (None, s1, tr1)"
    and "GetClusterId (GetHeader request) = ClusterID (server s1)"
    and "GetClientUrls (GetMember request) = url # urls"
  shows "Sync net stream (pre @ Inr request # rest) s tr =
           (case Sync_replay net request stream s1
                   (tr1 @ [LogEntry InfoLevel ''establish sync region stream with %s [%s]''
                             [Str (GetName (GetMember request)), Str url]]) of
              (Some err, s2, tr2) \<Rightarrow> (Some (Return (Some err)), s2, tr2)
            | (None, s2, tr2) \<Rightarrow> Sync net stream rest s2 tr2)"
  using assms by (simp add: Sync_append Let_def)

text \<open>
  The replay step for a request whose replay query is not empty: \<open>syncHistoryRegion\<close>
  appends a log line and exactly one send, on the session's stream, of a response that
  holds the regions of all the returned records in their order and the request's
  StartIndex, and returns what that send returned.
\<close>

lemma syncHistoryRegion_sends_history:
  assumes "RecordsFrom (history s) (GetStartIndex request) \<noteq> []"
  shows "\<exists>l err. syncHistoryRegion net request stream s tr =
           (err, tr @ [l, Send stream
              \<lparr>Header = Some \<lparr>RespClusterId = ClusterID (server s)\<rparr>,
               Regions = map GetMeta (RecordsFrom (history s) (GetStartIndex request)),
               StartIndex = GetStartIndex request\<rparr> err]) \<and> sends [l] = []"
  using assms by (simp add: syncHistoryRegion_def Let_def stream_Send_def)

text \<open>
  The replay step for a request whose replay query is empty: whether the request's
  StartIndex is the buffer's next index (an info line) or not (a warning), the step
  sends nothing, returns no error and binds the stream under the member's name.
\<close>

lemma Sync_replay_empty_registers:
  assumes "RecordsFrom (history s) (GetStartIndex request) = []"
  shows "Sync_replay net request stream s tr =
           (None, bindStream (GetName (GetMember request)) stream s,
            tr @ [if GetNextIndex (history s) = GetStartIndex request
                  then LogEntry InfoLevel ''%s already in sync with %s, the last index is %d''
                         [Str (GetName (GetMember request)), Str (Name (server s)),
                          U64 (GetStartIndex request)]
                  else LogEntry WarnLevel
                         ''no history regions from index %d, the leader maybe restarted''
                         [U64 (GetStartIndex request)]]) \<and>
         sends (snd (snd (Sync_replay net request stream s tr))) = sends tr \<and>
         streams (fst (snd (Sync_replay net request stream s tr)))
           (GetName (GetMember request)) = Some stream"
  using assms
  by (simp add: Sync_replay_def syncHistoryRegion_def Let_def sends_append bindStream_def)

text \<open>
  For a request that carries at least one client URL the session replays and
  registers: with a replay query that is not empty it sends exactly one response, with
  the records and the request's StartIndex; with an empty one it sends nothing, does
  not return and has the stream bound under the member's name.
\<close>

lemma Sync_replays_history:
  assumes "Sync net stream pre s tr = (None, s1, tr1)"
    and "GetClusterId (GetHeader request) = ClusterID (server s1)"
    and "GetClientUrls (GetMember request) \<noteq> []"
    and "RecordsFrom (history s1) (GetStartIndex request) \<noteq> []"
  shows "\<exists>new err. snd (snd (Sync net stream (pre @ [Inr request]) s tr)) = tr1 @ new \<and>
           sends new = [(stream,
              \<lparr>Header = Some \<lparr>RespClusterId = ClusterID (server s1)\<rparr>,
               Regions = map GetMeta (RecordsFrom (history s1) (GetStartIndex request)),
               StartIndex = GetStartIndex request\<rparr>, err)]"
proof -
  from assms(3) obtain url urls where u: "GetClientUrls (GetMember request) = url # urls"
    by (cases "GetClientUrls (GetMember request)") auto
  let ?e = "LogEntry InfoLevel ''establish sync region stream with %s [%s]''
              [Str (GetName (GetMember request)), Str url]"
  let ?m = "\<lparr>Header = Some \<lparr>RespClusterId = ClusterID (server s1)\<rparr>,
               Regions = map GetMeta (RecordsFrom (history s1) (GetStartIndex request)),
               StartIndex = GetStartIndex request\<rparr>"
  from syncHistoryRegion_sends_history [OF assms(4), of net stream "tr1 @ [?e]"]
  obtain l err where h: "syncHistoryRegion net request stream s1 (tr1 @ [?e]) =
           (err, (tr1 @ [?e]) @ [l, Send stream ?m err])" and l: "sends [l] = []"
    by blast
  have "snd (snd (Sync net stream (pre @ [Inr request]) s tr)) = tr1 @ [?e, l, Send stream ?m err]"
    using Sync_reaches_replay [OF assms(1,2) u, of "[]"] h
    by (cases err) (simp_all add: Sync_replay_def)
  moreover have "sends [?e, l, Send stream ?m err] = [(stream, ?m, err)]"
    using l by (cases l) simp_all
  ultimately show ?thesis by blast
qed

lemma Sync_registers_without_replay:
  assumes "Sync net stream pre s tr = (None, s1, tr1)"
    and "GetClusterId (GetHeader request) = ClusterID (server s1)"
    and "GetClientUrls (GetMember request) \<noteq> []"
    and "RecordsFrom (history s1) (GetStartIndex request) = []"
  shows "\<exists>new. Sync net stream (pre @ [Inr request]) s tr =
           (None, bindStream (GetName (GetMember request)) stream s1, tr1 @ new) \<and>
           sends new = []"
proof -
  from assms(3) obtain url urls where u: "GetClientUrls (GetMember request) = url # urls"
    by (cases "GetClientUrls (GetMember request)") auto
  let ?e = "LogEntry InfoLevel ''establish sync region stream with %s [%s]''
              [Str (GetName (GetMember request)), Str url]"
  let ?l = "if GetNextIndex (history s1) = GetStartIndex request
            then LogEntry InfoLevel ''%s already in sync with %s, the last index is %d''
                   [Str (GetName (GetMember request)), Str (Name (server s1)),
                    U64 (GetStartIndex request)]
            else LogEntry WarnLevel
                   ''no history regions from index %d, the leader maybe restarted''
                   [U64 (GetStartIndex request)]"
  from Sync_replay_empty_registers [OF assms(4), of net stream "tr1 @ [?e]"]
  have h: "Sync_replay net request stream s1 (tr1 @ [?e]) =
           (None, bindStream (GetName (GetMember request)) stream s1, (tr1 @ [?e]) @ [?l])"
    by blast
  have "Sync net stream (pre @ [Inr request]) s tr =
          (None, bindStream (GetName (GetMember request)) stream s1, tr1 @ [?e, ?l])"
    using Sync_reaches_replay [OF assms(1,2) u, of "[]"] h by simp
  moreover have "sends [?e, ?l] = []" by simp
  ultimately show ?thesis by blast
qed

lemma with_history_records:
  "RecordsFrom (history with_history) 1 = [region_n 2, region_n 3]"
  by (simp add: with_history_def Record_all_def Record_def newHistoryBuffer_def RecordsFrom_def
      Let_def)

text \<open>
  C4: the request below has the server's cluster identifier and its replay query
  returns two records, but its member has no client URL: the session panics at the
  index of line 137, before the replay, and no response is sent (the trace stays
  empty).
\<close>

theorem Sync_panics_before_replay:
  "GetClusterId (GetHeader (follower_request ''a'' [] 7 1)) = ClusterID (server with_history) \<and>
   RecordsFrom (history with_history) (GetStartIndex (follower_request ''a'' [] 7 1)) =
     [region_n 2, region_n 3] \<and>
   Sync reliable 1 [Inr (follower_request ''a'' [] 7 1)] with_history [] =
     (Some (Panic ''index out of range''), with_history, [])"
proof -
  have i: "GetStartIndex (follower_request ''a'' [] 7 1) = 1"
    by (simp add: GetStartIndex_def follower_request_def)
  have c: "GetClusterId (GetHeader (follower_request ''a'' [] 7 1)) = ClusterID (server with_history)"
    by (simp add: GetClusterId_def GetHeader_def follower_request_def with_history_def
        NewRegionSyncer_def pd1_def)
  have u: "GetClientUrls (GetMember (follower_request ''a'' [] 7 1)) = []"
    by (simp add: GetClientUrls_def GetMember_def follower_request_def)
  show ?thesis by (simp add: c u i with_history_records)
qed

text \<open>
  C5: the request below has the server's cluster identifier, its StartIndex is the
  buffer's next index and its replay query returns nothing, but its member has no
  client URL: the session panics at the index of line 137, and the stream is not bound.
\<close>

theorem Sync_panics_before_registering:
  "GetClusterId (GetHeader (follower_request ''a'' [] 7 0)) = ClusterID (server no_followers) \<and>
   RecordsFrom (history no_followers) (GetStartIndex (follower_request ''a'' [] 7 0)) = [] \<and>
   GetNextIndex (history no_followers) = GetStartIndex (follower_request ''a'' [] 7 0) \<and>
   Sync reliable 1 [Inr (follower_request ''a'' [] 7 0)] no_followers [] =
     (Some (Panic ''index out of range''), no_followers, []) \<and>
   streams no_followers ''a'' = None"
proof -
  have c: "GetClusterId (GetHeader (follower_request ''a'' [] 7 0)) = ClusterID (server no_followers)"
    by (simp add: GetClusterId_def GetHeader_def follower_request_def no_followers_def
        NewRegionSyncer_def pd1_def)
  have u: "GetClientUrls (GetMember (follower_request ''a'' [] 7 0)) = []"
    by (simp add: GetClientUrls_def GetMember_def follower_request_def)
  have r: "RecordsFrom (history no_followers) (GetStartIndex (follower_request ''a'' [] 7 0)) = []"
    by (simp add: RecordsFrom_def no_followers_def NewRegionSyncer_def newHistoryBuffer_def)
  have n: "GetNextIndex (history no_followers) = GetStartIndex (follower_request ''a'' [] 7 0)"
    by (simp add: GetStartIndex_def follower_request_def GetNextIndex_def no_followers_def
        NewRegionSyncer_def newHistoryBuffer_def)
  have e: "streams no_followers ''a'' = None"
    by (simp add: no_followers_def NewRegionSyncer_def)
  from c u r n e show ?thesis by simp
qed

section \<open>Properties of RunServer\<close>

text \<open>The index \<open>Record\<close> assigns, and the next index after recording a list.\<close>

lemma Record_index: "fst (Record r h) = nextIndex h"
  by (simp add: Record_def Let_def)

lemma Record_nextIndex: "nextIndex (snd (Record r h)) = nextIndex h + 1"
  by (simp add: Record_def Let_def)

lemma Record_all_Nil: "Record_all [] h = h"
  by (simp add: Record_all_def)

lemma Record_all_Cons: "Record_all (r # rs) h = Record_all rs (snd (Record r h))"
  by (simp add: Record_all_def)

lemma Record_all_nextIndex: "nextIndex (Record_all rs h) = nextIndex h + of_nat (length rs)"
  by (induction rs arbitrary: h) (simp_all add: Record_all_Nil Record_all_Cons Record_nextIndex)

lemma drain_eq:
  "drain i pending chan requests h =
     (let k = min (length chan) (min pending maxSyncRegionBatchSize - i)
      in (drop k chan, requests @ map GetMeta (take k chan), Record_all (take k chan) h))"
proof (induction chan arbitrary: i requests h)
  case Nil
  show ?case by (simp add: Record_all_Nil)
next
  case (Cons region chan)
  show ?case
  proof (cases "i < pending \<and> i < maxSyncRegionBatchSize")
    case True
    then obtain d where d: "min pending maxSyncRegionBatchSize - i = Suc d"
      by (cases "min pending maxSyncRegionBatchSize - i") auto
    then have d': "min pending maxSyncRegionBatchSize - Suc i = d" by simp
    from True show ?thesis
      by (simp add: Cons.IH d d' Let_def Record_all_Cons del: min_less_iff_conj)
  next
    case False
    then have "min pending maxSyncRegionBatchSize - i = 0" by auto
    with False show ?thesis by (auto simp: Record_all_Nil)
  qed
qed

lemma RunServer_batch_eq:
  "RunServer_batch first chan requests s =
     (\<lparr>Header = Some \<lparr>RespClusterId = ClusterID (server s)\<rparr>,
       Regions = requests @ map GetMeta (first # take maxSyncRegionBatchSize chan),
       StartIndex = GetNextIndex (history s)\<rparr>,
      drop maxSyncRegionBatchSize chan,
      s\<lparr>history := Record_all (first # take maxSyncRegionBatchSize chan) (history s)\<rparr>)"
proof -
  have k: "min (length chan) (min (length chan) maxSyncRegionBatchSize - 0) =
             min (length chan) maxSyncRegionBatchSize" by simp
  have t: "take (min (length chan) maxSyncRegionBatchSize) chan = take maxSyncRegionBatchSize chan"
    by (simp add: min_def)
  have dr: "drop (min (length chan) maxSyncRegionBatchSize) chan = drop maxSyncRegionBatchSize chan"
    by (simp add: min_def)
  show ?thesis
    unfolding RunServer_batch_def drain_eq Let_def k t dr
    by (simp add: Record_all_Cons)
qed

text \<open>
  The loop starts every iteration with an empty \<open>requests\<close>, so a loop that has taken
  the schedule \<open>pre\<close> and waits in its \<^verbatim>\<open>select\<close> goes on from the channel,
  syncer and trace it has reached.
\<close>

lemma RunServer_loop_append:
  "RunServer_loop net pre [] chan s tr = (False, chan1, s1, tr1) \<Longrightarrow>
   RunServer_loop net (pre @ rest) [] chan s tr = RunServer_loop net rest [] chan1 s1 tr1"
proof (induction pre arbitrary: chan s tr)
  case Nil
  then show ?case by simp
next
  case (Cons a pre)
  show ?case
  proof (cases a)
    case Quit
    with Cons.prems show ?thesis by simp
  next
    case (Notified names)
    with Cons.prems Cons.IH show ?thesis
      by (auto split: list.splits prod.splits)
  next
    case (Tick names)
    with Cons.prems Cons.IH show ?thesis
      by (auto split: prod.splits)
  next
    case (Produce r)
    with Cons.prems Cons.IH show ?thesis by simp
  qed
qed

lemma RunServer_batch_length:
  "length (Regions (fst (RunServer_batch first chan [] s))) =
     1 + min (length chan) maxSyncRegionBatchSize \<and>
   fst (snd (RunServer_batch first chan [] s)) = drop maxSyncRegionBatchSize chan"
  by (simp add: RunServer_batch_eq)

lemma burst_first: "burst = region_n 0 # map region_n [1..<150]"
  by (simp add: burst_def upt_conv_Cons [of 0])

lemma burst_rest:
  "drop maxSyncRegionBatchSize (map region_n [1..<150]) = region_n 101 # map region_n [102..<150]"
  by (simp add: maxSyncRegionBatchSize_def drop_map upt_conv_Cons [of 101])

lemma broadcast_one:
  "streams s = [''b'' \<mapsto> 2] \<Longrightarrow> broadcast reliable [''b''] m s tr = (s, tr @ [Send 2 m None])"
  by (simp add: broadcast_def stream_Send_def reliable_def Let_def)

lemma Notified_one:
  "streams s = [''b'' \<mapsto> 2] \<Longrightarrow>
   RunServer_loop reliable (Notified [''b''] # sched) [] (first # chan) s tr =
     RunServer_loop reliable sched [] (drop maxSyncRegionBatchSize chan)
       (s\<lparr>history := Record_all (first # take maxSyncRegionBatchSize chan) (history s)\<rparr>)
       (tr @ [Send 2 \<lparr>Header = Some \<lparr>RespClusterId = ClusterID (server s)\<rparr>,
                      Regions = map GetMeta (first # take maxSyncRegionBatchSize chan),
                      StartIndex = GetNextIndex (history s)\<rparr> None])"
  by (simp add: RunServer_batch_eq broadcast_one)

text \<open>
  C1: 150 notifications are queued and one follower is registered. The loop takes the
  notifier case twice: the first message it sends holds 101 records (the first
  notification and the 100 drained after it), the second the remaining 49; after the
  first cycle the channel holds the notifications 101 to 149.
\<close>

theorem RunServer_batch_of_101:
  "length burst = 150 \<and>
   map (\<lambda>a. length (Regions (fst (snd a))))
     (sends (snd (snd (snd (RunServer reliable [Notified [''b''], Notified [''b'']] burst
        one_follower []))))) = [101, 49] \<and>
   fst (snd (RunServer reliable [Notified [''b'']] burst one_follower [])) =
     map region_n [101..<150]"
proof -
  have st: "streams one_follower = [''b'' \<mapsto> 2]"
    by (simp add: one_follower_def)
  have b: "length burst = 150" by (simp add: burst_def)
  have r: "map region_n [101..<150] = region_n 101 # map region_n [102..<150]"
    by (simp add: upt_conv_Cons [of 101])
  have one: "RunServer reliable [Notified [''b'']] burst one_follower [] =
    (False, map region_n [101..<150],
     one_follower\<lparr>history := Record_all (region_n 0 # take maxSyncRegionBatchSize
        (map region_n [1..<150])) (history one_follower)\<rparr>,
     [Send 2 \<lparr>Header = Some \<lparr>RespClusterId = ClusterID (server one_follower)\<rparr>,
               Regions = map GetMeta (region_n 0 # take maxSyncRegionBatchSize
                 (map region_n [1..<150])),
               StartIndex = GetNextIndex (history one_follower)\<rparr> None])"
    unfolding RunServer_def burst_first
    by (simp only: Notified_one [OF st] burst_rest r append_Nil) simp
  have two: "map (\<lambda>a. length (Regions (fst (snd a))))
     (sends (snd (snd (snd (RunServer reliable [Notified [''b''], Notified [''b'']] burst
        one_follower []))))) = [101, 49]"
    unfolding RunServer_def burst_first
    apply (simp only: Notified_one [OF st] burst_rest append_Nil)
    apply (subst Notified_one)
     apply (simp add: st)
    apply (simp add: maxSyncRegionBatchSize_def)
    done
  from b one two show ?thesis by simp
qed

text \<open>
  C6: the loop has taken the schedule \<open>pre\<close> and waits with the notifications
  \<open>first # chan\<close> queued; it takes the notifier case. The message \<open>m\<close> it hands to
  \<open>broadcast\<close> holds the regions of \<open>batch\<close>, the first notification and the ones
  drained after it, in the order of arrival; these were recorded in that order; the
  StartIndex of \<open>m\<close> is the index \<open>Record\<close> assigned to the first; and the index
  \<open>Record\<close> assigned to the record at position \<open>i\<close> is StartIndex plus \<open>i\<close>
  (in 64-bit arithmetic).
\<close>

theorem RunServer_batch_StartIndex:
  assumes "RunServer net pre chan0 s0 tr0 = (False, first # chan, s, tr)"
  shows "\<exists>m chan2 s1. RunServer_batch first chan [] s = (m, chan2, s1) \<and>
     RunServer net (pre @ Notified names # sched) chan0 s0 tr0 =
       (case broadcast net names m s1 tr of
          (s2, tr2) \<Rightarrow> RunServer_loop net sched [] chan2 s2 tr2) \<and>
     (let batch = first # take maxSyncRegionBatchSize chan in
      Regions m = map GetMeta batch \<and>
      history s1 = Record_all batch (history s) \<and>
      StartIndex m = fst (Record first (history s)) \<and>
      (\<forall>i<length batch.
         fst (Record (batch ! i) (Record_all (take i batch) (history s))) =
           StartIndex m + of_nat i))"
proof -
  from assms have "RunServer net (pre @ Notified names # sched) chan0 s0 tr0 =
      RunServer_loop net (Notified names # sched) [] (first # chan) s tr"
    by (simp add: RunServer_def RunServer_loop_append)
  then show ?thesis
    by (simp add: RunServer_batch_eq Let_def Record_index Record_all_nextIndex GetNextIndex_def
        min_def)
qed

theorem RunServer_batch_StartIndex_witness:
  "RunServer reliable [Produce (region_n 0), Produce (region_n 1), Produce (region_n 2)] []
     restarted [] = (False, region_n 0 # [region_n 1, region_n 2], restarted, []) \<and>
   (2::nat) < length (region_n 0 # take maxSyncRegionBatchSize [region_n 1, region_n 2]) \<and>
   StartIndex (fst (RunServer_batch (region_n 0) [region_n 1, region_n 2] [] restarted)) = 5 \<and>
   fst (Record (region_n 2) (Record_all [region_n 0, region_n 1] (history restarted))) = 7"
proof -
  let ?batch = "region_n 0 # take maxSyncRegionBatchSize [region_n 1, region_n 2]"
  have p: "RunServer reliable [Produce (region_n 0), Produce (region_n 1), Produce (region_n 2)] []
     restarted [] = (False, region_n 0 # [region_n 1, region_n 2], restarted, [])"
    by (simp add: RunServer_def)
  have l: "(2::nat) < length ?batch" by (simp add: maxSyncRegionBatchSize_def)
  have b: "?batch = [region_n 0, region_n 1, region_n 2]" by (simp add: maxSyncRegionBatchSize_def)
  from RunServer_batch_StartIndex [OF p, of "[]" "[]"]
  obtain m chan2 s1 where
    r: "RunServer_batch (region_n 0) [region_n 1, region_n 2] [] restarted = (m, chan2, s1)"
    and i0: "StartIndex m = fst (Record (region_n 0) (history restarted))"
    and ix: "\<forall>i<length ?batch.
         fst (Record (?batch ! i) (Record_all (take i ?batch) (history restarted))) =
           StartIndex m + of_nat i"
    unfolding Let_def by blast
  have s: "StartIndex m = 5"
    by (simp add: i0 Record_def restarted_def NewRegionSyncer_def newHistoryBuffer_def Let_def)
  from ix l have "fst (Record (?batch ! 2) (Record_all (take 2 ?batch) (history restarted))) =
           StartIndex m + of_nat 2" by blast
  then have "fst (Record (region_n 2) (Record_all [region_n 0, region_n 1] (history restarted))) = 7"
    unfolding b by (simp add: s)
  with p l r s show ?thesis by simp
qed

text \<open>
  C7: the loop has taken the schedule \<open>pre\<close> and waits with the syncer \<open>s\<close>; the
  ticker fires and the broadcast ranges over the streams in the order \<open>names\<close>. The
  message \<open>m\<close> handed to \<open>broadcast\<close> has no regions and the StartIndex
  \<open>GetNextIndex (history s)\<close>, every registered stream is sent \<open>m\<close> once, and the
  loop goes on from what the broadcast left.
\<close>

theorem RunServer_tick_heartbeat:
  assumes "RunServer net pre chan0 s0 tr0 = (False, chan, s, tr)"
    and "distinct names" and "set names = dom (streams s)"
  shows "\<exists>m new. Regions m = [] \<and> StartIndex m = GetNextIndex (history s) \<and>
           snd (broadcast net names m s tr) = tr @ new \<and>
           map (\<lambda>a. (fst a, fst (snd a))) (sends new) = map (\<lambda>n. (the (streams s n), m)) names \<and>
           RunServer net (pre @ Tick names # sched) chan0 s0 tr0 =
             RunServer_loop net sched [] chan (fst (broadcast net names m s tr)) (tr @ new)"
proof -
  from broadcast_effect [OF assms(3), of net "RunServer_alive s" tr]
  obtain new where new: "snd (broadcast net names (RunServer_alive s) s tr) = tr @ new"
    "map (\<lambda>a. (fst a, fst (snd a))) (sends new) =
       map (\<lambda>n. (the (streams s n), RunServer_alive s)) names" by blast
  from assms(1) have "RunServer net (pre @ Tick names # sched) chan0 s0 tr0 =
      RunServer_loop net (Tick names # sched) [] chan s tr"
    by (simp add: RunServer_def RunServer_loop_append)
  then have "RunServer net (pre @ Tick names # sched) chan0 s0 tr0 =
      RunServer_loop net sched [] chan (fst (broadcast net names (RunServer_alive s) s tr))
        (snd (broadcast net names (RunServer_alive s) s tr))"
    by (simp add: case_prod_beta)
  with new show ?thesis
    by (intro exI [of _ "RunServer_alive s"] exI [of _ new]) (simp add: RunServer_alive_def)
qed

theorem RunServer_tick_heartbeat_witness:
  "RunServer reliable [] [] two_followers [] = (False, [], two_followers, []) \<and>
   distinct [''a'', ''b''] \<and> set [''a'', ''b''] = dom (streams two_followers) \<and>
   (\<exists>m new. Regions m = [] \<and> StartIndex m = GetNextIndex (history two_followers) \<and>
      snd (broadcast reliable [''a'', ''b''] m two_followers []) = [] @ new \<and>
      map (\<lambda>a. (fst a, fst (snd a))) (sends new) =
        map (\<lambda>n. (the (streams two_followers n), m)) [''a'', ''b''] \<and>
      RunServer reliable ([] @ Tick [''a'', ''b''] # []) [] two_followers [] =
        RunServer_loop reliable [] [] []
          (fst (broadcast reliable [''a'', ''b''] m two_followers [])) ([] @ new)) \<and>
   sends (snd (snd (snd (RunServer reliable [Tick [''a'', ''b'']] [] two_followers [])))) =
     [(1, \<lparr>Header = Some \<lparr>RespClusterId = 7\<rparr>, Regions = [], StartIndex = 0\<rparr>, None),
      (2, \<lparr>Header = Some \<lparr>RespClusterId = 7\<rparr>, Regions = [], StartIndex = 0\<rparr>, None)] \<and>
   GetNextIndex (history two_followers) = 0"
proof -
  have p: "RunServer reliable [] [] two_followers [] = (False, [], two_followers, [])"
    by (simp add: RunServer_def)
  have d: "distinct [''a'', ''b'']" by simp
  have s: "set [''a'', ''b''] = dom (streams two_followers)"
    by (auto simp: two_followers_def)
  have n: "GetNextIndex (history two_followers) = 0"
    by (simp add: two_followers_def NewRegionSyncer_def newHistoryBuffer_def GetNextIndex_def)
  have e: "sends (snd (snd (snd (RunServer reliable [Tick [''a'', ''b'']] []
              two_followers [])))) =
     [(1, \<lparr>Header = Some \<lparr>RespClusterId = 7\<rparr>, Regions = [], StartIndex = 0\<rparr>, None),
      (2, \<lparr>Header = Some \<lparr>RespClusterId = 7\<rparr>, Regions = [], StartIndex = 0\<rparr>, None)]"
    by (simp add: RunServer_def broadcast_def two_followers_def stream_Send_def reliable_def
        Let_def RunServer_alive_def NewRegionSyncer_def newHistoryBuffer_def GetNextIndex_def
        pd1_def)
  from RunServer_tick_heartbeat [OF p d s, of "[]"] p d s n e
  show ?thesis by blast
qed

section \<open>Properties of the label scheduler\<close>

lemma rejectLeaderStores_foldl:
  "foldl (\<lambda>m st. if P st then insert (GetId st) m else m) A sts =
     A \<union> {GetId st |st. st \<in> set sts \<and> P st}"
  by (induction sts arbitrary: A) auto

lemma rejectLeaderStores_eq:
  "rejectLeaderStores cluster =
     {GetId st |st. st \<in> set (GetStores cluster) \<and>
        CheckLabelProperty cluster RejectLeader (Labels st)}"
  by (simp add: rejectLeaderStores_def rejectLeaderStores_foldl)

text \<open>
  The second loop returns nothing, or the one operator built for the first id of the
  range that has a leader region for which a target is found.
\<close>

lemma Schedule_range_result:
  "fst (Schedule_range sel s cluster ids counters) = [] \<or>
   (\<exists>from region tg. from \<in> set ids \<and> RandLeaderRegion cluster from = Some region \<and>
      sel (selector s) cluster (GetFollowerStores cluster region)
        [NewExcludedFilter {} (excludeStores region)] = Some tg \<and>
      fst (Schedule_range sel s cluster ids counters) =
        [NewOperator ''label-reject-leader'' (GetID region) (GetRegionEpoch region) OpLeader
           [TransferLeader from (GetId tg)]])"
proof (induction ids arbitrary: counters)
  case Nil
  show ?case by simp
next
  case (Cons i ids)
  show ?case
  proof (cases "RandLeaderRegion cluster i")
    case None
    with Cons.IH [of counters] show ?thesis by auto
  next
    case (Some region)
    show ?thesis
    proof (cases "sel (selector s) cluster (GetFollowerStores cluster region)
        [NewExcludedFilter {} (excludeStores region)]")
      case None
      with Some Cons.IH [of "counters @ [''no_target'']"] show ?thesis by auto
    next
      case (Some tg)
      with \<open>RandLeaderRegion cluster i = Some region\<close> show ?thesis by auto
    qed
  qed
qed

text \<open>
  C10: \<open>Schedule\<close>, ranging over the reject-leader stores in any order \<open>ids\<close>,
  returns no operator or exactly one. That one is built by \<open>NewOperator\<close> with the kind
  \<open>OpLeader\<close> and the single step \<open>TransferLeader\<close> from the store \<open>from\<close> to the
  selected target, where \<open>from\<close> is the id of a store of the cluster whose labels have
  the reject-leader property and the operator's region is the one the cluster gave as a
  leader region of that store. When no store has the property the result is empty.
\<close>

theorem Schedule_one_transfer_leader:
  assumes "distinct ids" and "set ids = rejectLeaderStores cluster"
  shows "(fst (Schedule sel s cluster ids) = [] \<or>
          (\<exists>from st region tg.
             fst (Schedule sel s cluster ids) =
               [NewOperator ''label-reject-leader'' (GetID region) (GetRegionEpoch region)
                  OpLeader [TransferLeader from (GetId tg)]] \<and>
             st \<in> set (GetStores cluster) \<and> GetId st = from \<and>
             CheckLabelProperty cluster RejectLeader (Labels st) \<and>
             RandLeaderRegion cluster from = Some region)) \<and>
         ((\<forall>st \<in> set (GetStores cluster).
             \<not> CheckLabelProperty cluster RejectLeader (Labels st)) \<longrightarrow>
          fst (Schedule sel s cluster ids) = [])"
proof (intro conjI impI)
  show "fst (Schedule sel s cluster ids) = [] \<or>
          (\<exists>from st region tg.
             fst (Schedule sel s cluster ids) =
               [NewOperator ''label-reject-leader'' (GetID region) (GetRegionEpoch region)
                  OpLeader [TransferLeader from (GetId tg)]] \<and>
             st \<in> set (GetStores cluster) \<and> GetId st = from \<and>
             CheckLabelProperty cluster RejectLeader (Labels st) \<and>
             RandLeaderRegion cluster from = Some region)"
  proof (cases "rejectLeaderStores cluster = {}")
    case True
    then show ?thesis by (simp add: Schedule_def)
  next
    case False
    then have eq: "Schedule sel s cluster ids = Schedule_range sel s cluster ids [''schedule'']"
      by (simp add: Schedule_def)
    from Schedule_range_result [of sel s cluster ids "[''schedule'']"]
    show ?thesis
    proof
      assume "fst (Schedule_range sel s cluster ids [''schedule'']) = []"
      then show ?thesis by (simp add: eq)
    next
      assume "\<exists>from region tg. from \<in> set ids \<and> RandLeaderRegion cluster from = Some region \<and>
        sel (selector s) cluster (GetFollowerStores cluster region)
          [NewExcludedFilter {} (excludeStores region)] = Some tg \<and>
        fst (Schedule_range sel s cluster ids [''schedule'']) =
          [NewOperator ''label-reject-leader'' (GetID region) (GetRegionEpoch region) OpLeader
             [TransferLeader from (GetId tg)]]"
      then obtain "from" region tg where op:
        "from \<in> set ids" "RandLeaderRegion cluster from = Some region"
        "fst (Schedule_range sel s cluster ids [''schedule'']) =
          [NewOperator ''label-reject-leader'' (GetID region) (GetRegionEpoch region) OpLeader
             [TransferLeader from (GetId tg)]]" by blast
      from op(1) assms(2) have "from \<in> rejectLeaderStores cluster" by simp
      then obtain st where "st \<in> set (GetStores cluster)" "GetId st = from"
        "CheckLabelProperty cluster RejectLeader (Labels st)"
        by (auto simp: rejectLeaderStores_eq)
      with op eq show ?thesis by auto
    qed
  qed
next
  assume "\<forall>st \<in> set (GetStores cluster). \<not> CheckLabelProperty cluster RejectLeader (Labels st)"
  then have "rejectLeaderStores cluster = {}" by (auto simp: rejectLeaderStores_eq)
  then show "fst (Schedule sel s cluster ids) = []" by (simp add: Schedule_def)
qed

theorem Schedule_one_transfer_leader_witness:
  "distinct [1 :: uint64] \<and> set [1] = rejectLeaderStores labelled_cluster \<and>
   Schedule first_store newLabelScheduler labelled_cluster [1] =
     ([NewOperator ''label-reject-leader'' 9 \<lparr>ConfVer = 1, Version = 1\<rparr> OpLeader
         [TransferLeader 1 2]], [''schedule'', ''new_operator'']) \<and>
   (\<exists>from st region tg.
      fst (Schedule first_store newLabelScheduler labelled_cluster [1]) =
        [NewOperator ''label-reject-leader'' (GetID region) (GetRegionEpoch region)
           OpLeader [TransferLeader from (GetId tg)]] \<and>
      st \<in> set (GetStores labelled_cluster) \<and> GetId st = from \<and>
      CheckLabelProperty labelled_cluster RejectLeader (Labels st) \<and>
      RandLeaderRegion labelled_cluster from = Some region) \<and>
   distinct ([] :: uint64 list) \<and> set [] = rejectLeaderStores plain_cluster \<and>
   filter (\<lambda>st. CheckLabelProperty plain_cluster RejectLeader (Labels st))
     (GetStores plain_cluster) = [] \<and>
   fst (Schedule first_store newLabelScheduler plain_cluster []) = []"
proof -
  have d1: "distinct [1 :: uint64]" by simp
  have s1: "set [1] = rejectLeaderStores labelled_cluster"
    by (simp add: rejectLeaderStores_def labelled_cluster_def store_n_def GetId_def
        RejectLeader_def)
  have e1: "Schedule first_store newLabelScheduler labelled_cluster [1] =
     ([NewOperator ''label-reject-leader'' 9 \<lparr>ConfVer = 1, Version = 1\<rparr> OpLeader
         [TransferLeader 1 2]], [''schedule'', ''new_operator''])"
    by (simp add: Schedule_def rejectLeaderStores_def labelled_cluster_def store_n_def GetId_def
        RejectLeader_def first_store_def region_n_def GetID_def GetRegionEpoch_def Let_def)
  have d2: "distinct ([] :: uint64 list)" by simp
  have s2: "set [] = rejectLeaderStores plain_cluster"
    by (simp add: rejectLeaderStores_def plain_cluster_def store_n_def)
  have f2: "filter (\<lambda>st. CheckLabelProperty plain_cluster RejectLeader (Labels st))
     (GetStores plain_cluster) = []"
    by (simp add: plain_cluster_def store_n_def)
  then have n2: "\<forall>st \<in> set (GetStores plain_cluster).
     \<not> CheckLabelProperty plain_cluster RejectLeader (Labels st)"
    by (simp add: filter_empty_conv)
  from e1 have ne: "fst (Schedule first_store newLabelScheduler labelled_cluster [1]) \<noteq> []"
    by simp
  from Schedule_one_transfer_leader [OF d1 s1, of first_store newLabelScheduler] ne
  have x1: "\<exists>from st region tg.
      fst (Schedule first_store newLabelScheduler labelled_cluster [1]) =
        [NewOperator ''label-reject-leader'' (GetID region) (GetRegionEpoch region)
           OpLeader [TransferLeader from (GetId tg)]] \<and>
      st \<in> set (GetStores labelled_cluster) \<and> GetId st = from \<and>
      CheckLabelProperty labelled_cluster RejectLeader (Labels st) \<and>
      RandLeaderRegion labelled_cluster from = Some region"
    by blast
  from Schedule_one_transfer_leader [OF d2 s2, of first_store newLabelScheduler] n2
  have x2: "fst (Schedule first_store newLabelScheduler plain_cluster []) = []" by blast
  from d1 s1 e1 x1 d2 s2 f2 x2 show ?thesis by blast
qed

end
